theory Spec2Isabelle
  imports Complex_Main
begin

section \<open>Data model\<close>

text \<open>
  The library works on caller-owned point objects with numeric fields \<open>x\<close> and \<open>y\<close>.
  Hull edges keep references to those objects and \<open>displacePoints\<close> writes to them in
  place, so the points live in a store indexed by references; a collection of points is
  the list of its members' references in iteration order (the order of \<open>for ... in\<close>).
  JavaScript numbers are idealised as reals: rounding, infinities and NaN are outside the
  model.
\<close>

type_synonym ref = nat

record point =
  x :: real
  y :: real

type_synonym store = "ref \<Rightarrow> point"

text \<open>A base line and a hull edge are two-element arrays of point objects.\<close>

type_synonym edge = "ref \<times> ref"

text \<open>
  What the source can go wrong with: reading a property of \<open>null\<close> or \<open>undefined\<close>
  throws a TypeError; a division by a zero length gives NaN coordinates, which the real
  numbers do not have.
\<close>

datatype failure = TypeError | NaNResult

section \<open>getConvexHull\<close>

record fmd_result =
  maxPoint :: "ref option"
  newPoints :: "ref list"

text \<open>The signed distance of a point from a base line (the loop body's \<open>distance\<close>).\<close>

definition baseLineDistance :: "store \<Rightarrow> edge \<Rightarrow> ref \<Rightarrow> real" where
  "baseLineDistance s baseLine pt =
     (let Vy = x (s (snd baseLine)) - x (s (fst baseLine));
          Vx = y (s (fst baseLine)) - y (s (snd baseLine))
      in Vx * (x (s pt) - x (s (fst baseLine))) + Vy * (y (s pt) - y (s (fst baseLine))))"

text \<open>The loop of \<open>findMostDistantPointFromBaseLine\<close> over \<open>(maxD, maxPt, newPoints)\<close>.\<close>

fun fmdLoop :: "store \<Rightarrow> edge \<Rightarrow> ref list \<Rightarrow> real \<times> ref option \<times> ref list
                  \<Rightarrow> real \<times> ref option \<times> ref list" where
  "fmdLoop s baseLine [] acc = acc"
| "fmdLoop s baseLine (pt # rest) (maxD, maxPt, newPts) =
     (let distance = baseLineDistance s baseLine pt in
      if distance > 0 then
        (if distance > maxD
         then fmdLoop s baseLine rest (distance, Some pt, newPts @ [pt])
         else fmdLoop s baseLine rest (maxD, maxPt, newPts @ [pt]))
      else fmdLoop s baseLine rest (maxD, maxPt, newPts))"

definition findMostDistantPointFromBaseLine :: "store \<Rightarrow> edge \<Rightarrow> ref list \<Rightarrow> fmd_result" where
  "findMostDistantPointFromBaseLine s baseLine points =
     (case fmdLoop s baseLine points (0, None, []) of
        (maxD, maxPt, newPts) \<Rightarrow> \<lparr>maxPoint = maxPt, newPoints = newPts\<rparr>)"

lemma fmdLoop_newPoints:
  "snd (snd (fmdLoop s b pts (d, m, acc))) = acc @ filter (\<lambda>p. baseLineDistance s b p > 0) pts"
  by (induction pts arbitrary: d m acc) (simp_all add: Let_def)

lemma fmdLoop_maxPoint_mem:
  "fst (snd (fmdLoop s b pts (d, m, acc))) = Some q \<Longrightarrow>
     m = Some q \<or> (q \<in> set pts \<and> baseLineDistance s b q > 0)"
proof (induction pts arbitrary: d m acc)
  case Nil
  then show ?case by simp
next
  case (Cons p pts)
  then show ?case
    by (fastforce simp: Let_def split: if_splits)
qed

lemma newPoints_filter:
  "newPoints (findMostDistantPointFromBaseLine s b pts) =
     filter (\<lambda>p. baseLineDistance s b p > 0) pts"
proof -
  obtain d m n where e: "fmdLoop s b pts (0, None, []) = (d, m, n)"
    by (cases "fmdLoop s b pts (0, None, [])") auto
  have "n = filter (\<lambda>p. baseLineDistance s b p > 0) pts"
    using fmdLoop_newPoints [of s b pts 0 None "[]"] e by simp
  then show ?thesis
    by (simp add: findMostDistantPointFromBaseLine_def e)
qed

lemma maxPoint_outside:
  assumes "maxPoint (findMostDistantPointFromBaseLine s b pts) = Some q"
  shows "q \<in> set pts \<and> baseLineDistance s b q > 0"
proof -
  obtain d m n where e: "fmdLoop s b pts (0, None, []) = (d, m, n)"
    by (cases "fmdLoop s b pts (0, None, [])") auto
  have "m = Some q"
    using assms by (simp add: findMostDistantPointFromBaseLine_def e)
  then show ?thesis
    using fmdLoop_maxPoint_mem [of s b pts 0 None "[]" q] e by simp
qed

text \<open>The new vertex lies on both sub-base-lines, so it is not outside either of them.\<close>

lemma baseLineDistance_left: "baseLineDistance s (a, q) q = 0"
  by (simp add: baseLineDistance_def Let_def algebra_simps)

lemma baseLineDistance_right: "baseLineDistance s (q, b) q = 0"
  by (simp add: baseLineDistance_def Let_def)

lemma outside_shrinks:
  assumes "maxPoint (findMostDistantPointFromBaseLine s b pts) = Some q"
    and "baseLineDistance s b' q = 0"
  shows "length (filter (\<lambda>p. baseLineDistance s b' p > 0)
                   (newPoints (findMostDistantPointFromBaseLine s b pts)))
         < length (filter (\<lambda>p. baseLineDistance s b p > 0) pts)"
proof -
  let ?new = "filter (\<lambda>p. baseLineDistance s b p > 0) pts"
  have mem: "q \<in> set ?new"
    using maxPoint_outside [OF assms(1)] by simp
  have "length (filter (\<lambda>p. baseLineDistance s b' p > 0) ?new) < length ?new"
    by (rule length_filter_less [OF mem]) (simp add: assms(2))
  then show ?thesis
    by (simp only: newPoints_filter)
qed

function buildConvexHull :: "store \<Rightarrow> edge \<Rightarrow> ref list \<Rightarrow> edge list" where
  "buildConvexHull s baseLine points =
     (let t = findMostDistantPointFromBaseLine s baseLine points in
      case maxPoint t of
        Some m \<Rightarrow>
          ([] @ buildConvexHull s (fst baseLine, m) (newPoints t))
             @ buildConvexHull s (m, snd baseLine) (newPoints t)
      | None \<Rightarrow> [baseLine])"
  by pat_completeness auto
termination
proof (relation "measure (\<lambda>(s, b, pts). length (filter (\<lambda>p. baseLineDistance s b p > 0) pts))")
  show "wf (measure (\<lambda>(s, b, pts). length (filter (\<lambda>p. baseLineDistance s b p > 0) pts)))"
    by simp
next
  fix s :: store and baseLine :: edge and points t m
  assume "t = findMostDistantPointFromBaseLine s baseLine points" "maxPoint t = Some m"
  then show "((s, (fst baseLine, m), newPoints t), (s, baseLine, points))
      \<in> measure (\<lambda>(s, b, pts). length (filter (\<lambda>p. baseLineDistance s b p > 0) pts))"
    using outside_shrinks [of s baseLine points m "(fst baseLine, m)"]
    by (simp add: baseLineDistance_left)
next
  fix s :: store and baseLine :: edge and points t m
  assume "t = findMostDistantPointFromBaseLine s baseLine points" "maxPoint t = Some m"
  then show "((s, (m, snd baseLine), newPoints t), (s, baseLine, points))
      \<in> measure (\<lambda>(s, b, pts). length (filter (\<lambda>p. baseLineDistance s b p > 0) pts))"
    using outside_shrinks [of s baseLine points m "(m, snd baseLine)"]
    by (simp add: baseLineDistance_right)
qed

declare buildConvexHull.simps [simp del]

text \<open>
  The first-base-line scan compares against \<open>maxX\<close> and \<open>minX\<close>, which start out
  \<open>undefined\<close>: a comparison with \<open>undefined\<close> is false, and \<open>!v\<close> holds for
  \<open>undefined\<close> and for the number 0.
\<close>

fun jsGreater :: "real \<Rightarrow> real option \<Rightarrow> bool" where
  "jsGreater a None = False"
| "jsGreater a (Some b) = (a > b)"

fun jsLess :: "real \<Rightarrow> real option \<Rightarrow> bool" where
  "jsLess a None = False"
| "jsLess a (Some b) = (a < b)"

fun jsNot :: "real option \<Rightarrow> bool" where
  "jsNot None = True"
| "jsNot (Some b) = (b = 0)"

record scan =
  maxX :: "real option"
  minX :: "real option"
  maxPt :: "ref option"
  minPt :: "ref option"
  ptsArray :: "ref list"

definition scanStart :: scan where
  "scanStart = \<lparr>maxX = None, minX = None, maxPt = None, minPt = None, ptsArray = []\<rparr>"

definition scanStep :: "store \<Rightarrow> scan \<Rightarrow> ref \<Rightarrow> scan" where
  "scanStep s st pt =
     (let st = st\<lparr>ptsArray := ptsArray st @ [pt]\<rparr>;
          st = (if jsGreater (x (s pt)) (maxX st) \<or> jsNot (maxX st)
                then st\<lparr>maxPt := Some pt, maxX := Some (x (s pt))\<rparr> else st);
          st = (if jsLess (x (s pt)) (minX st) \<or> jsNot (minX st)
                then st\<lparr>minPt := Some pt, minX := Some (x (s pt))\<rparr> else st)
      in st)"

fun scanLoop :: "store \<Rightarrow> ref list \<Rightarrow> scan \<Rightarrow> scan" where
  "scanLoop s [] st = st"
| "scanLoop s (pt # rest) st = scanLoop s rest (scanStep s st pt)"

definition firstBaseLine :: "store \<Rightarrow> ref list \<Rightarrow> scan" where
  "firstBaseLine s points = scanLoop s points scanStart"

text \<open>
  \<open>Array.prototype.concat\<close> returns a new array and leaves its receiver as it is. The
  source calls \<open>ch.concat(...)\<close> as a statement, so both recursions run and their
  concatenation is dropped; \<open>ch\<close> is returned. A base line built from an \<open>undefined\<close>
  end point would throw in \<open>findMostDistantPointFromBaseLine\<close>.
\<close>

definition getConvexHull :: "store \<Rightarrow> ref list \<Rightarrow> failure + edge list" where
  "getConvexHull s points =
     (let st = firstBaseLine s points;
          ch = []
      in if length (ptsArray st) \<ge> 3 then
           (case (minPt st, maxPt st) of
              (Some mn, Some mx) \<Rightarrow>
                (let dropped = ch @ buildConvexHull s (mn, mx) (ptsArray st)
                                  @ buildConvexHull s (mx, mn) (ptsArray st)
                 in Inr ch)
            | _ \<Rightarrow> Inl TypeError)
         else Inr ch)"

section \<open>displacePoints\<close>

subsection \<open>Line intersection\<close>

text \<open>
  The result object of \<open>checkLineIntersection\<close>; its coordinates \<open>x\<close> and \<open>y\<close> (here
  \<open>ix\<close> and \<open>iy\<close>) start as \<open>null\<close>.
\<close>

record intersection =
  ix :: "real option"
  iy :: "real option"
  onLine1 :: bool
  onLine2 :: bool

definition lineDenominator :: "point \<Rightarrow> point \<Rightarrow> point \<Rightarrow> point \<Rightarrow> real" where
  "lineDenominator line1Start line1End line2Start line2End =
     ((y line2End - y line2Start) * (x line1End - x line1Start))
       - ((x line2End - x line2Start) * (y line1End - y line1Start))"

definition checkLineIntersection :: "point \<Rightarrow> point \<Rightarrow> point \<Rightarrow> point \<Rightarrow> intersection" where
  "checkLineIntersection line1Start line1End line2Start line2End =
     (let result = \<lparr>ix = None, iy = None, onLine1 = False, onLine2 = False\<rparr>;
          denominator = lineDenominator line1Start line1End line2Start line2End
      in if denominator = 0 then result
         else
           let a = y line1Start - y line2Start;
               b = x line1Start - x line2Start;
               numerator1 = ((x line2End - x line2Start) * a) - ((y line2End - y line2Start) * b);
               numerator2 = ((x line1End - x line1Start) * a) - ((y line1End - y line1Start) * b);
               a = 1 * numerator1 / denominator;
               b = 1 * numerator2 / denominator;
               result = result\<lparr>ix := Some (x line1Start + (a * (x line1End - x line1Start))),
                               iy := Some (y line1Start + (a * (y line1End - y line1Start)))\<rparr>;
               result = (if a > 0 \<and> a < 1 then result\<lparr>onLine1 := True\<rparr> else result);
               result = (if b > 0 \<and> b < 1 then result\<lparr>onLine2 := True\<rparr> else result)
           in result)"

subsection \<open>Distance from a point to a segment\<close>

definition sqr :: "real \<Rightarrow> real" where
  "sqr a = a * a"

definition dist2 :: "point \<Rightarrow> point \<Rightarrow> real" where
  "dist2 pt1 pt2 = sqr (x pt1 - x pt2) + sqr (y pt1 - y pt2)"

definition distToSegmentSquared :: "point \<Rightarrow> point \<Rightarrow> point \<Rightarrow> real" where
  "distToSegmentSquared pt v1 v2 =
     (let l2 = dist2 v1 v2 in
      if l2 = 0 then dist2 pt v1
      else
        let t = ((x pt - x v1) * (x v2 - x v1) + (y pt - y v1) * (y v2 - y v1)) / l2 in
        if t < 0 then dist2 pt v1
        else if t > 1 then dist2 pt v2
        else dist2 pt \<lparr>x = x v1 + t * (x v2 - x v1), y = y v1 + t * (y v2 - y v1)\<rparr>)"

definition distToSegment :: "point \<Rightarrow> point \<Rightarrow> point \<Rightarrow> real" where
  "distToSegment pt v1 v2 = sqrt (distToSegmentSquared pt v1 v2)"

subsection \<open>The hull vertex farthest from a line\<close>

text \<open>
  One pass of the inner loop body of \<open>findMostDistantPointFromLine\<close>, for one end point
  of one edge, over \<open>(maxD, maxPt)\<close>.
\<close>

definition lineStep :: "store \<Rightarrow> point \<Rightarrow> point \<Rightarrow> real \<times> ref option \<Rightarrow> ref
                          \<Rightarrow> real \<times> ref option" where
  "lineStep s linePt1 linePt2 acc pt =
     (let Vy = x linePt2 - x linePt1;
          Vx = y linePt1 - y linePt2;
          distance = Vx * (x (s pt) - x linePt1) + Vy * (y (s pt) - y linePt1)
      in if distance > 0 \<and> distance > fst acc then (distance, Some pt) else acc)"

fun lineLoop :: "store \<Rightarrow> point \<Rightarrow> point \<Rightarrow> edge list \<Rightarrow> real \<times> ref option
                   \<Rightarrow> real \<times> ref option" where
  "lineLoop s linePt1 linePt2 [] acc = acc"
| "lineLoop s linePt1 linePt2 (e # es) acc =
     lineLoop s linePt1 linePt2 es
       (lineStep s linePt1 linePt2 (lineStep s linePt1 linePt2 acc (fst e)) (snd e))"

definition findMostDistantPointFromLine :: "store \<Rightarrow> point \<Rightarrow> point \<Rightarrow> edge list \<Rightarrow> ref option" where
  "findMostDistantPointFromLine s linePt1 linePt2 convexHull =
     snd (lineLoop s linePt1 linePt2 convexHull (0, None))"

subsection \<open>Distance vectors\<close>

record distance_data =
  vector :: point
  edge :: edge

text \<open>In an arithmetic expression \<open>null\<close> counts as 0.\<close>

fun toNumber :: "real option \<Rightarrow> real" where
  "toNumber None = 0"
| "toNumber (Some v) = v"

text \<open>
  The search loop of \<open>minDistanceVector\<close>: \<open>minDist\<close> and \<open>minDistIndex\<close> are set
  together, so one optional pair stands for both.
\<close>

fun minDistLoop :: "store \<Rightarrow> edge list \<Rightarrow> point \<Rightarrow> nat list \<Rightarrow> (real \<times> nat) option
                      \<Rightarrow> (real \<times> nat) option" where
  "minDistLoop s convexHull pt [] acc = acc"
| "minDistLoop s convexHull pt (i # rest) acc =
     (let tmpDist = distToSegment pt (s (fst (convexHull ! i))) (s (snd (convexHull ! i))) in
      case acc of
        None \<Rightarrow> minDistLoop s convexHull pt rest (Some (tmpDist, i))
      | Some (minDist, minDistIndex) \<Rightarrow>
          if tmpDist < minDist then minDistLoop s convexHull pt rest (Some (tmpDist, i))
          else minDistLoop s convexHull pt rest acc)"

definition minDistanceVector :: "store \<Rightarrow> edge list \<Rightarrow> point \<Rightarrow> failure + distance_data option" where
  "minDistanceVector s convexHull pt =
     (case minDistLoop s convexHull pt [0 ..< length convexHull] None of
        Some (minDist, minDistIndex) \<Rightarrow>
          if minDistIndex < length convexHull then
            (let e = convexHull ! minDistIndex;
                 dx = x (s (fst e)) - x (s (snd e));
                 dy = y (s (fst e)) - y (s (snd e));
                 pp2 = \<lparr>x = x pt + dy, y = y pt - dx\<rparr>;
                 intersectionData = checkLineIntersection pt pp2 (s (fst e)) (s (snd e))
             in Inr (Some \<lparr>vector = \<lparr>x = toNumber (ix intersectionData) - x pt,
                                      y = toNumber (iy intersectionData) - y pt\<rparr>,
                           edge = (fst e, snd e)\<rparr>))
          else Inl TypeError
      | None \<Rightarrow> Inr None)"

definition sameSign :: "real \<Rightarrow> real \<Rightarrow> bool" where
  "sameSign a b = ((a < 0 \<and> b < 0) \<or> (a \<ge> 0 \<and> b \<ge> 0))"

definition sameDirection :: "point \<Rightarrow> point \<Rightarrow> point \<Rightarrow> point \<Rightarrow> bool" where
  "sameDirection pt11 pt12 pt21 pt22 =
     (sameSign (x pt12 - x pt11) (x pt22 - x pt21) \<and> sameSign (y pt12 - y pt11) (y pt22 - y pt21))"

text \<open>
  The test of \<open>minDistanceVectorInDirection\<close> on one edge: the line through \<open>pt\<close> and
  \<open>v\<close> meets the edge strictly inside it, on the side of \<open>pt\<close> that \<open>v\<close> is on. The
  intersection object is read as a point.
\<close>

definition rayCrossesEdge :: "store \<Rightarrow> point \<Rightarrow> point \<Rightarrow> edge \<Rightarrow> bool" where
  "rayCrossesEdge s pt v e =
     (let intersectionData = checkLineIntersection pt v (s (fst e)) (s (snd e)) in
      onLine2 intersectionData \<and>
      sameDirection pt v pt \<lparr>x = toNumber (ix intersectionData), y = toNumber (iy intersectionData)\<rparr>)"

fun directionLoop :: "store \<Rightarrow> edge list \<Rightarrow> point \<Rightarrow> point \<Rightarrow> edge list
                        \<Rightarrow> failure + distance_data option" where
  "directionLoop s convexHull pt v [] = Inr None"
| "directionLoop s convexHull pt v (e # es) =
     (if rayCrossesEdge s pt v e then
        (case findMostDistantPointFromLine s pt
                \<lparr>x = x pt + (y v - y pt), y = y pt - (x v - x pt)\<rparr> convexHull of
           None \<Rightarrow> Inl TypeError
         | Some mostDistantPoint \<Rightarrow>
             Inr (Some \<lparr>vector = \<lparr>x = - x pt + x (s mostDistantPoint),
                                   y = - y pt + y (s mostDistantPoint)\<rparr>,
                        edge = (fst e, snd e)\<rparr>))
      else directionLoop s convexHull pt v es)"

definition minDistanceVectorInDirection :: "store \<Rightarrow> edge list \<Rightarrow> point \<Rightarrow> point
                                              \<Rightarrow> failure + distance_data option" where
  "minDistanceVectorInDirection s convexHull pt v = directionLoop s convexHull pt v convexHull"

subsection \<open>The main body\<close>

text \<open>The default \<open>pt1\<close>: the mean of the first end points of the fixed hull's edges.\<close>

definition centroid :: "store \<Rightarrow> edge list \<Rightarrow> point" where
  "centroid s chFixed =
     (let pt1 = foldl (\<lambda>pt1 e. \<lparr>x = x pt1 + x (s (fst e)), y = y pt1 + y (s (fst e))\<rparr>)
                  \<lparr>x = 0, y = 0\<rparr> chFixed
      in \<lparr>x = x pt1 / real (length chFixed), y = y pt1 / real (length chFixed)\<rparr>)"

text \<open>The final loop: every member of \<open>ptsToDisplace\<close> is moved in place.\<close>

fun displaceLoop :: "store \<Rightarrow> ref list \<Rightarrow> real \<Rightarrow> real \<Rightarrow> store" where
  "displaceLoop s [] displace_dx displace_dy = s"
| "displaceLoop s (pts # rest) displace_dx displace_dy =
     displaceLoop (s(pts := \<lparr>x = x (s pts) + displace_dx, y = y (s pts) + displace_dy\<rparr>))
       rest displace_dx displace_dy"

text \<open>
  The statements of \<open>displacePoints\<close> after the two hulls are computed. \<open>padding\<close>,
  \<open>pt1\<close> and \<open>pt2\<close> are optional (\<open>None\<close> for an omitted or falsy argument); \<open>pt1\<close>
  and \<open>pt2\<close> are only read, and every read precedes the first write.
\<close>

definition displaceFromHulls :: "store \<Rightarrow> edge list \<Rightarrow> edge list \<Rightarrow> ref list \<Rightarrow> real option
                                   \<Rightarrow> point option \<Rightarrow> point option \<Rightarrow> failure + store" where
  "displaceFromHulls s chFixed chDisplace ptsToDisplace padding pt1 pt2 =
     (if length chFixed < 3 \<or> length chDisplace < 3 then Inr s
      else
        let pt1 = (case pt1 of None \<Rightarrow> centroid s chFixed | Some p \<Rightarrow> p) in
        case (case pt2 of
                None \<Rightarrow> minDistanceVector s chFixed pt1
              | Some v \<Rightarrow> minDistanceVectorInDirection s chFixed pt1 v) of
          Inl err \<Rightarrow> Inl err
        | Inr None \<Rightarrow> Inl TypeError
        | Inr (Some displacementDataFromFixed) \<Rightarrow>
            let displacementDirection = vector displacementDataFromFixed;
                separatingAxisVector =
                  (if x displacementDirection \<noteq> 0 \<or> y displacementDirection \<noteq> 0
                   then \<lparr>x = ((- 1) * y displacementDirection),
                         y = - ((- 1) * x displacementDirection)\<rparr>
                   else \<lparr>x = x (s (fst (edge displacementDataFromFixed)))
                               - x (s (snd (edge displacementDataFromFixed))),
                         y = y (s (fst (edge displacementDataFromFixed)))
                               - y (s (snd (edge displacementDataFromFixed)))\<rparr>);
                separatingPoint = \<lparr>x = x pt1 + x (vector displacementDataFromFixed),
                                   y = y pt1 + y (vector displacementDataFromFixed)\<rparr>
            in (case findMostDistantPointFromLine s separatingPoint
                      \<lparr>x = x separatingPoint + x separatingAxisVector,
                       y = y separatingPoint + y separatingAxisVector\<rparr> chDisplace of
                 None \<Rightarrow> Inl TypeError
               | Some farthestPoint \<Rightarrow>
                   let vDisplace = \<lparr>x = x separatingPoint - x (s farthestPoint),
                                    y = y separatingPoint - y (s farthestPoint)\<rparr>;
                       padding = (case padding of None \<Rightarrow> 0 | Some p \<Rightarrow> p);
                       len = sqrt (x separatingAxisVector * x separatingAxisVector
                                     + y separatingAxisVector * y separatingAxisVector)
                   in if len = 0 then Inl NaNResult
                      else
                        let vPadding = \<lparr>x = 1 * y separatingAxisVector * (padding / len),
                                        y = (- 1) * x separatingAxisVector * (padding / len)\<rparr>;
                            displace_dx = x vDisplace + x vPadding;
                            displace_dy = y vDisplace + y vPadding
                        in Inr (displaceLoop s ptsToDisplace displace_dx displace_dy)))"

definition displacePoints :: "store \<Rightarrow> ref list \<Rightarrow> ref list \<Rightarrow> real option
                                \<Rightarrow> point option \<Rightarrow> point option \<Rightarrow> failure + store" where
  "displacePoints s ptsFixed ptsToDisplace padding pt1 pt2 =
     (case getConvexHull s ptsFixed of
        Inl err \<Rightarrow> Inl err
      | Inr chFixed \<Rightarrow>
          (case getConvexHull s ptsToDisplace of
             Inl err \<Rightarrow> Inl err
           | Inr chDisplace \<Rightarrow>
               displaceFromHulls s chFixed chDisplace ptsToDisplace padding pt1 pt2))"

section \<open>The behaviour as specified\<close>

text \<open>
  Following the specification's words, not the source: the base line runs from the point
  with the minimum \<open>x\<close> to the point with the maximum \<open>x\<close>, and among points with the
  same extreme \<open>x\<close> the first one in iteration order wins. \<open>spec_minPt s q ps\<close> is that
  choice for the collection \<open>q # ps\<close>.
\<close>

fun spec_minPt :: "store \<Rightarrow> ref \<Rightarrow> ref list \<Rightarrow> ref" where
  "spec_minPt s q [] = q"
| "spec_minPt s q (p # ps) = spec_minPt s (if x (s p) < x (s q) then p else q) ps"

fun spec_maxPt :: "store \<Rightarrow> ref \<Rightarrow> ref list \<Rightarrow> ref" where
  "spec_maxPt s q [] = q"
| "spec_maxPt s q (p # ps) = spec_maxPt s (if x (s p) > x (s q) then p else q) ps"



section \<open>Example inputs\<close>

text \<open>
  The two overlapping squares: the fixed set is stored at references 0 to 3, the set to
  displace at references 4 to 7.
\<close>

definition squares :: store where
  "squares = (\<lambda>r. \<lparr>x = 0, y = 0\<rparr>)
     (0 := \<lparr>x = 0, y = 0\<rparr>, 1 := \<lparr>x = 0, y = 2\<rparr>, 2 := \<lparr>x = 2, y = 2\<rparr>, 3 := \<lparr>x = 2, y = 0\<rparr>,
      4 := \<lparr>x = 1, y = 1\<rparr>, 5 := \<lparr>x = 1, y = 2\<rparr>, 6 := \<lparr>x = 2, y = 1\<rparr>, 7 := \<lparr>x = 2, y = 2\<rparr>)"

text \<open>
  The boundary edges of the two squares, as arguments for the main body of
  \<open>displacePoints\<close>.
\<close>

definition squareHullFixed :: "edge list" where
  "squareHullFixed = [(0, 1), (1, 2), (2, 3), (3, 0)]"

definition squareHullDisplace :: "edge list" where
  "squareHullDisplace = [(4, 5), (5, 7), (7, 6), (6, 4)]"

text \<open>
  Two overlapping triangles: the fixed one at references 0 to 2, the one to displace at
  references 3 to 5.
\<close>

definition triangles :: store where
  "triangles = (\<lambda>r. \<lparr>x = 0, y = 0\<rparr>)
     (0 := \<lparr>x = 1, y = 1\<rparr>, 1 := \<lparr>x = 5, y = 1\<rparr>, 2 := \<lparr>x = 1, y = 5\<rparr>,
      3 := \<lparr>x = 2, y = 2\<rparr>, 4 := \<lparr>x = 6, y = 2\<rparr>, 5 := \<lparr>x = 2, y = 6\<rparr>)"


section \<open>Properties of getConvexHull\<close>

lemma scanLoop_ptsArray: "ptsArray (scanLoop s pts st) = ptsArray st @ pts"
  by (induction pts arbitrary: st) (simp_all add: scanStep_def Let_def)

lemma scanStep_keeps:
  "maxPt st \<noteq> None \<Longrightarrow> minPt st \<noteq> None \<Longrightarrow>
     maxPt (scanStep s st pt) \<noteq> None \<and> minPt (scanStep s st pt) \<noteq> None"
  by (simp add: scanStep_def Let_def)

lemma scanLoop_keeps:
  "maxPt st \<noteq> None \<Longrightarrow> minPt st \<noteq> None \<Longrightarrow>
     maxPt (scanLoop s pts st) \<noteq> None \<and> minPt (scanLoop s pts st) \<noteq> None"
proof (induction pts arbitrary: st)
  case Nil
  then show ?case by simp
next
  case (Cons p pts)
  then show ?case
    using scanStep_keeps [of st s p] by simp
qed

lemma scanStep_start:
  "maxPt (scanStep s scanStart pt) = Some pt \<and> minPt (scanStep s scanStart pt) = Some pt"
  by (simp add: scanStep_def scanStart_def Let_def)

text \<open>After the scan of a non-empty collection both ends of the base line are set.\<close>

lemma firstBaseLine_defined:
  assumes "points \<noteq> []"
  shows "\<exists>mn mx. minPt (firstBaseLine s points) = Some mn
                 \<and> maxPt (firstBaseLine s points) = Some mx"
proof -
  obtain p rest where pr: "points = p # rest"
    using assms by (cases points) auto
  have "maxPt (scanLoop s rest (scanStep s scanStart p)) \<noteq> None
        \<and> minPt (scanLoop s rest (scanStep s scanStart p)) \<noteq> None"
    by (rule scanLoop_keeps) (simp_all add: scanStep_start)
  then show ?thesis
    by (auto simp: firstBaseLine_def pr)
qed

lemma getConvexHull_empty: "getConvexHull s points = Inr []"
proof (cases "3 \<le> length points")
  case True
  then have "points \<noteq> []" by auto
  then obtain mn mx where "minPt (firstBaseLine s points) = Some mn"
      "maxPt (firstBaseLine s points) = Some mx"
    using firstBaseLine_defined by blast
  then show ?thesis
    by (simp add: getConvexHull_def Let_def)
next
  case False
  then show ?thesis
    by (simp add: getConvexHull_def Let_def firstBaseLine_def scanLoop_ptsArray scanStart_def)
qed

text \<open>
  Claim C3. For every collection of points, of any size, \<open>getConvexHull\<close> returns the
  empty array: it does not throw, both hull recursions terminate, and the edge list they
  build is dropped because the result of \<open>concat\<close> is not assigned.
\<close>

theorem getConvexHull_always_empty: "getConvexHull s points = Inr []"
  by (rule getConvexHull_empty)

lemma scanStep_min:
  "minX (scanStep s st pt)
     = (if jsLess (x (s pt)) (minX st) \<or> jsNot (minX st) then Some (x (s pt)) else minX st)"
  "minPt (scanStep s st pt)
     = (if jsLess (x (s pt)) (minX st) \<or> jsNot (minX st) then Some pt else minPt st)"
  by (simp_all add: scanStep_def Let_def)

lemma scanStep_max:
  "maxX (scanStep s st pt)
     = (if jsGreater (x (s pt)) (maxX st) \<or> jsNot (maxX st) then Some (x (s pt)) else maxX st)"
  "maxPt (scanStep s st pt)
     = (if jsGreater (x (s pt)) (maxX st) \<or> jsNot (maxX st) then Some pt else maxPt st)"
  by (simp_all add: scanStep_def Let_def)

lemma scanLoop_min_nonzero:
  assumes "\<forall>p\<in>set pts. x (s p) \<noteq> 0" "x (s q) \<noteq> 0"
    and "minX st = Some (x (s q))" "minPt st = Some q"
  shows "minPt (scanLoop s pts st) = Some (spec_minPt s q pts)"
  using assms
proof (induction pts arbitrary: st q)
  case Nil
  then show ?case by simp
next
  case (Cons p pts)
  let ?q = "if x (s p) < x (s q) then p else q"
  have "minPt (scanLoop s pts (scanStep s st p)) = Some (spec_minPt s ?q pts)"
  proof (rule Cons.IH)
    show "\<forall>p\<in>set pts. x (s p) \<noteq> 0" using Cons.prems(1) by simp
    show "x (s ?q) \<noteq> 0" using Cons.prems(1,2) by simp
    show "minX (scanStep s st p) = Some (x (s ?q))"
      using Cons.prems(2,3) by (simp add: scanStep_min)
    show "minPt (scanStep s st p) = Some ?q"
      using Cons.prems(2,3,4) by (simp add: scanStep_min)
  qed
  then show ?case by simp
qed

lemma scanLoop_max_nonzero:
  assumes "\<forall>p\<in>set pts. x (s p) \<noteq> 0" "x (s q) \<noteq> 0"
    and "maxX st = Some (x (s q))" "maxPt st = Some q"
  shows "maxPt (scanLoop s pts st) = Some (spec_maxPt s q pts)"
  using assms
proof (induction pts arbitrary: st q)
  case Nil
  then show ?case by simp
next
  case (Cons p pts)
  let ?q = "if x (s p) > x (s q) then p else q"
  have "maxPt (scanLoop s pts (scanStep s st p)) = Some (spec_maxPt s ?q pts)"
  proof (rule Cons.IH)
    show "\<forall>p\<in>set pts. x (s p) \<noteq> 0" using Cons.prems(1) by simp
    show "x (s ?q) \<noteq> 0" using Cons.prems(1,2) by simp
    show "maxX (scanStep s st p) = Some (x (s ?q))"
      using Cons.prems(2,3) by (simp add: scanStep_max)
    show "maxPt (scanStep s st p) = Some ?q"
      using Cons.prems(2,3,4) by (simp add: scanStep_max)
  qed
  then show ?case by simp
qed

text \<open>
  Where no point has \<open>x = 0\<close> the scan agrees with the specified choice: the test
  \<open>!maxX\<close> (\<open>!minX\<close>) then only fires on the first point.
\<close>

lemma firstBaseLine_nonzero:
  assumes "\<forall>p\<in>set (p0 # rest). x (s p) \<noteq> 0"
  shows "minPt (firstBaseLine s (p0 # rest)) = Some (spec_minPt s p0 rest)"
    and "maxPt (firstBaseLine s (p0 # rest)) = Some (spec_maxPt s p0 rest)"
proof -
  have st: "minX (scanStep s scanStart p0) = Some (x (s p0))"
    "minPt (scanStep s scanStart p0) = Some p0"
    "maxX (scanStep s scanStart p0) = Some (x (s p0))"
    "maxPt (scanStep s scanStart p0) = Some p0"
    by (simp_all add: scanStep_min scanStep_max scanStart_def)
  have nz: "\<forall>p\<in>set rest. x (s p) \<noteq> 0" "x (s p0) \<noteq> 0"
    using assms by simp_all
  show "minPt (firstBaseLine s (p0 # rest)) = Some (spec_minPt s p0 rest)"
    using scanLoop_min_nonzero [OF nz st(1,2)] by (simp add: firstBaseLine_def)
  show "maxPt (firstBaseLine s (p0 # rest)) = Some (spec_maxPt s p0 rest)"
    using scanLoop_max_nonzero [OF nz st(3,4)] by (simp add: firstBaseLine_def)
qed

text \<open>The specified choice is a member of the collection with the least \<open>x\<close>.\<close>

lemma spec_minPt_least:
  "spec_minPt s q ps \<in> set (q # ps)
   \<and> (\<forall>p\<in>set (q # ps). x (s (spec_minPt s q ps)) \<le> x (s p))"
proof (induction ps arbitrary: q)
  case Nil
  then show ?case by simp
next
  case (Cons p ps)
  let ?q = "if x (s p) < x (s q) then p else q"
  have ih: "spec_minPt s ?q ps \<in> set (?q # ps)"
    "\<forall>r\<in>set (?q # ps). x (s (spec_minPt s ?q ps)) \<le> x (s r)"
    using Cons.IH [of ?q] by blast+
  have "x (s (spec_minPt s ?q ps)) \<le> x (s ?q)"
    using ih(2) by simp
  then have "x (s (spec_minPt s ?q ps)) \<le> x (s p)" "x (s (spec_minPt s ?q ps)) \<le> x (s q)"
    by (simp_all split: if_splits)
  then show ?case
    using ih by (auto split: if_splits)
qed

lemma spec_maxPt_greatest:
  "spec_maxPt s q ps \<in> set (q # ps)
   \<and> (\<forall>p\<in>set (q # ps). x (s p) \<le> x (s (spec_maxPt s q ps)))"
proof (induction ps arbitrary: q)
  case Nil
  then show ?case by simp
next
  case (Cons p ps)
  let ?q = "if x (s p) > x (s q) then p else q"
  have ih: "spec_maxPt s ?q ps \<in> set (?q # ps)"
    "\<forall>r\<in>set (?q # ps). x (s r) \<le> x (s (spec_maxPt s ?q ps))"
    using Cons.IH [of ?q] by blast+
  have "x (s ?q) \<le> x (s (spec_maxPt s ?q ps))"
    using ih(2) by simp
  then have "x (s p) \<le> x (s (spec_maxPt s ?q ps))" "x (s q) \<le> x (s (spec_maxPt s ?q ps))"
    by (simp_all split: if_splits)
  then show ?case
    using ih by (auto split: if_splits)
qed

section \<open>Properties of the geometric primitives\<close>

text \<open>
  Claim C8. When the denominator of the line-intersection computation is zero,
  \<open>checkLineIntersection\<close> returns the initial result object (null coordinates, both
  flags false) and no division takes place; the distance from a point to a segment of
  length zero is the distance to its end point.
\<close>

theorem degenerate_geometry_special_cased:
  "(lineDenominator line1Start line1End line2Start line2End = 0 \<longrightarrow>
      checkLineIntersection line1Start line1End line2Start line2End
        = \<lparr>ix = None, iy = None, onLine1 = False, onLine2 = False\<rparr>)
   \<and> (x v1 = x v2 \<and> y v1 = y v2 \<longrightarrow>
        distToSegmentSquared pt v1 v2 = dist2 pt v1
        \<and> distToSegment pt v1 v2 = sqrt ((x pt - x v1)\<^sup>2 + (y pt - y v1)\<^sup>2))"
  by (simp add: checkLineIntersection_def distToSegmentSquared_def distToSegment_def
      dist2_def sqr_def power2_eq_square)

theorem degenerate_geometry_special_cased_witness:
  "lineDenominator \<lparr>x = 0, y = 0\<rparr> \<lparr>x = 1, y = 1\<rparr> \<lparr>x = 0, y = 1\<rparr> \<lparr>x = 1, y = 2\<rparr> = 0
   \<and> checkLineIntersection \<lparr>x = 0, y = 0\<rparr> \<lparr>x = 1, y = 1\<rparr> \<lparr>x = 0, y = 1\<rparr> \<lparr>x = 1, y = 2\<rparr>
        = \<lparr>ix = None, iy = None, onLine1 = False, onLine2 = False\<rparr>
   \<and> distToSegmentSquared \<lparr>x = 3, y = 4\<rparr> \<lparr>x = 0, y = 0\<rparr> \<lparr>x = 0, y = 0\<rparr> = 25
   \<and> distToSegment \<lparr>x = 3, y = 4\<rparr> \<lparr>x = 0, y = 0\<rparr> \<lparr>x = 0, y = 0\<rparr> = 5"
proof -
  have d: "lineDenominator \<lparr>x = 0, y = 0\<rparr> \<lparr>x = 1, y = 1\<rparr> \<lparr>x = 0, y = 1\<rparr> \<lparr>x = 1, y = 2\<rparr> = 0"
    by (simp add: lineDenominator_def)
  have r: "sqrt ((3 - 0)\<^sup>2 + (4 - 0)\<^sup>2) = (5::real)"
    by (rule real_sqrt_unique) simp_all
  show ?thesis
    using d r
      degenerate_geometry_special_cased
        [of "\<lparr>x = 0, y = 0\<rparr>" "\<lparr>x = 1, y = 1\<rparr>" "\<lparr>x = 0, y = 1\<rparr>" "\<lparr>x = 1, y = 2\<rparr>"
            "\<lparr>x = 0, y = 0\<rparr>" "\<lparr>x = 0, y = 0\<rparr>" "\<lparr>x = 3, y = 4\<rparr>"]
    by (simp add: dist2_def sqr_def)
qed

section \<open>Evaluation on the example inputs\<close>

lemma squares_at:
  "squares 0 = \<lparr>x = 0, y = 0\<rparr>" "squares (Suc 0) = \<lparr>x = 0, y = 2\<rparr>"
  "squares 2 = \<lparr>x = 2, y = 2\<rparr>" "squares 3 = \<lparr>x = 2, y = 0\<rparr>"
  "squares 4 = \<lparr>x = 1, y = 1\<rparr>" "squares 5 = \<lparr>x = 1, y = 2\<rparr>"
  "squares 6 = \<lparr>x = 2, y = 1\<rparr>" "squares 7 = \<lparr>x = 2, y = 2\<rparr>"
  by (simp_all add: squares_def)

lemma triangles_at:
  "triangles 0 = \<lparr>x = 1, y = 1\<rparr>" "triangles (Suc 0) = \<lparr>x = 5, y = 1\<rparr>"
  "triangles 2 = \<lparr>x = 1, y = 5\<rparr>" "triangles 3 = \<lparr>x = 2, y = 2\<rparr>"
  "triangles 4 = \<lparr>x = 6, y = 2\<rparr>" "triangles 5 = \<lparr>x = 2, y = 6\<rparr>"
  by (simp_all add: triangles_def)

lemma squareHullFixed_at:
  "squareHullFixed ! 0 = (0, Suc 0)" "squareHullFixed ! Suc 0 = (Suc 0, 2)"
  "squareHullFixed ! 2 = (2, 3)" "squareHullFixed ! 3 = (3, 0)" "length squareHullFixed = 4"
  by (simp_all add: squareHullFixed_def)

lemma squares_centroid: "centroid squares squareHullFixed = \<lparr>x = 1, y = 1\<rparr>"
  by (simp add: centroid_def squareHullFixed_def squares_at Let_def)

lemma squares_distToSegment:
  "distToSegment \<lparr>x = 1, y = 1\<rparr> \<lparr>x = 0, y = 0\<rparr> \<lparr>x = 0, y = 2\<rparr> = 1"
  "distToSegment \<lparr>x = 1, y = 1\<rparr> \<lparr>x = 0, y = 2\<rparr> \<lparr>x = 2, y = 2\<rparr> = 1"
  "distToSegment \<lparr>x = 1, y = 1\<rparr> \<lparr>x = 2, y = 2\<rparr> \<lparr>x = 2, y = 0\<rparr> = 1"
  "distToSegment \<lparr>x = 1, y = 1\<rparr> \<lparr>x = 2, y = 0\<rparr> \<lparr>x = 0, y = 0\<rparr> = 1"
  by (simp_all add: distToSegment_def distToSegmentSquared_def dist2_def sqr_def Let_def)

text \<open>All four edges are at distance 1 from the centre; the first one is kept.\<close>

lemma squares_minDistLoop:
  "minDistLoop squares squareHullFixed \<lparr>x = 1, y = 1\<rparr> [0 ..< 4] None = Some (1, 0)"
proof -
  have u: "[0 ..< 4] = [0, Suc 0, 2, 3]"
    by (simp add: upt_rec)
  show ?thesis
    unfolding u by (simp add: squareHullFixed_at squares_at squares_distToSegment)
qed

lemma squares_minDistanceVector:
  "minDistanceVector squares squareHullFixed \<lparr>x = 1, y = 1\<rparr>
     = Inr (Some \<lparr>vector = \<lparr>x = - 1, y = 0\<rparr>, edge = (0, 1)\<rparr>)"
  by (simp only: minDistanceVector_def squareHullFixed_at squares_minDistLoop)
    (simp add: squareHullFixed_at squares_at Let_def checkLineIntersection_def
      lineDenominator_def)

lemma squares_farthest:
  "findMostDistantPointFromLine squares \<lparr>x = 0, y = 1\<rparr> \<lparr>x = 0, y = 0\<rparr> squareHullDisplace
     = Some 7"
  by (simp add: findMostDistantPointFromLine_def squareHullDisplace_def lineStep_def Let_def
      squares_at)

text \<open>
  The main body on the two squares with their boundary edges, padding 1 and the default
  \<open>pt1\<close>: the square to displace is moved by \<open>(-3, -1)\<close>.
\<close>

lemma squares_displaceFromHulls:
  "displaceFromHulls squares squareHullFixed squareHullDisplace [4, 5, 6, 7] (Some 1) None None
     = Inr (displaceLoop squares [4, 5, 6, 7] (- 3) (- 1))"
proof -
  have l: "length squareHullFixed = 4" "length squareHullDisplace = 4"
    by (simp_all add: squareHullFixed_def squareHullDisplace_def)
  show ?thesis
    by (simp add: displaceFromHulls_def l squares_centroid squares_minDistanceVector
        squares_farthest squares_at Let_def)
qed

lemma triangles_fixed_edges:
  "buildConvexHull triangles (0, 1) [0, 1, 2] @ buildConvexHull triangles (1, 0) [0, 1, 2]
     = [(0, 2), (2, 1), (1, 0)]"
  by (simp add: buildConvexHull.simps findMostDistantPointFromBaseLine_def
      baseLineDistance_def triangles_at Let_def)

lemma triangles_displace_edges:
  "buildConvexHull triangles (3, 4) [3, 4, 5] @ buildConvexHull triangles (4, 3) [3, 4, 5]
     = [(3, 5), (5, 4), (4, 3)]"
  by (simp add: buildConvexHull.simps findMostDistantPointFromBaseLine_def
      baseLineDistance_def triangles_at Let_def)

lemma triangles_firstBaseLine:
  "firstBaseLine triangles [0, 1, 2]
     = \<lparr>maxX = Some 5, minX = Some 1, maxPt = Some 1, minPt = Some 0, ptsArray = [0, 1, 2]\<rparr>"
  "firstBaseLine triangles [3, 4, 5]
     = \<lparr>maxX = Some 6, minX = Some 2, maxPt = Some 4, minPt = Some 3, ptsArray = [3, 4, 5]\<rparr>"
  by (simp_all add: firstBaseLine_def scanStart_def scanStep_def triangles_at Let_def)

lemma squares_firstBaseLine:
  "firstBaseLine squares [0, 1, 2, 3]
     = \<lparr>maxX = Some 2, minX = Some 2, maxPt = Some 2, minPt = Some 2, ptsArray = [0, 1, 2, 3]\<rparr>"
  by (simp add: firstBaseLine_def scanStart_def scanStep_def squares_at Let_def)
















section \<open>The hull that is built and the hull that is returned\<close>

text \<open>
  Claim C2. \<open>getConvexHull\<close> returns no edges for 0, 1 or 2 points, exactly the three
  edges of the triangle for three non-collinear points, and in general the concatenation
  of the terminal base lines of both recursions.

  On the triangle \<open>(1,1)\<close>, \<open>(5,1)\<close>, \<open>(1,5)\<close> the base line runs from point 0 to
  point 1 and the two recursions build the three edges of the triangle, but the value
  returned is the empty array.
\<close>

theorem getConvexHull_triangle_dropped:
  "getConvexHull triangles [0, 1, 2] = Inr []
   \<and> minPt (firstBaseLine triangles [0, 1, 2]) = Some 0
   \<and> maxPt (firstBaseLine triangles [0, 1, 2]) = Some 1
   \<and> buildConvexHull triangles (0, 1) [0, 1, 2] @ buildConvexHull triangles (1, 0) [0, 1, 2]
       = [(0, 2), (2, 1), (1, 0)]"
proof -
  have a: "getConvexHull triangles [0, 1, 2] = Inr []"
    by (rule getConvexHull_empty)
  have b: "minPt (firstBaseLine triangles [0, 1, 2]) = Some 0"
    "maxPt (firstBaseLine triangles [0, 1, 2]) = Some 1"
    by (simp_all only: triangles_firstBaseLine scan.select_convs)
  show ?thesis
    by (intro conjI a b triangles_fixed_edges)
qed

text \<open>
  Claim C9. For every non-empty collection the scan picks the point with the minimum
  \<open>x\<close> as \<open>minPt\<close> and the point with the maximum \<open>x\<close> as \<open>maxPt\<close>, the first one
  encountered winning among points with the same extreme \<open>x\<close>.

  On the square \<open>(0,0)\<close>, \<open>(0,2)\<close>, \<open>(2,2)\<close>, \<open>(2,0)\<close> the scan ends with \<open>minPt\<close> at
  \<open>(2,2)\<close>, whose \<open>x\<close> is the maximum: \<open>minX\<close> is 0 after the first point, \<open>!minX\<close>
  holds, and the next point replaces it whatever its \<open>x\<close>. On the two points \<open>(0,0)\<close>,
  \<open>(0,2)\<close>, which share \<open>x = 0\<close>, \<open>maxPt\<close> is the last one, not the first.
\<close>

theorem firstBaseLine_zero_slip:
  "minPt (firstBaseLine squares [0, 1, 2, 3]) = Some 2
   \<and> x (squares 2) = 2 \<and> x (squares 0) = 0
   \<and> maxPt (firstBaseLine squares [0, 1]) = Some 1
   \<and> x (squares 0) = x (squares 1)"
  by (simp add: firstBaseLine_def scanStart_def scanStep_def squares_at Let_def)

section \<open>Properties of displacePoints\<close>

lemma point_eta: "\<lparr>x = x p, y = y p\<rparr> = (p::point)"
  by (cases p) simp

lemma displaceLoop_other:
  "r \<notin> set pts \<Longrightarrow> displaceLoop s pts dx dy r = s r"
  by (induction pts arbitrary: s) auto

lemma displaceLoop_member:
  "distinct pts \<Longrightarrow> r \<in> set pts \<Longrightarrow>
     displaceLoop s pts dx dy r = \<lparr>x = x (s r) + dx, y = y (s r) + dy\<rparr>"
proof (induction pts arbitrary: s)
  case Nil
  then show ?case by simp
next
  case (Cons p pts)
  show ?case
  proof (cases "r = p")
    case True
    with Cons.prems have "r \<notin> set pts" by simp
    then show ?thesis
      using True by (simp add: displaceLoop_other)
  next
    case False
    let ?s = "s(p := \<lparr>x = x (s p) + dx, y = y (s p) + dy\<rparr>)"
    from False Cons.prems have "distinct pts" "r \<in> set pts" by auto
    then have "displaceLoop ?s pts dx dy r = \<lparr>x = x (?s r) + dx, y = y (?s r) + dy\<rparr>"
      by (rule Cons.IH)
    then show ?thesis
      using False by simp
  qed
qed

lemma displaceLoop_zero: "displaceLoop s pts 0 0 = s"
  by (induction pts arbitrary: s) (simp_all add: point_eta)

text \<open>Whenever the main body returns, its result is the final loop run on the input store.\<close>

lemma displaceFromHulls_result:
  assumes "displaceFromHulls s chFixed chDisplace pts padding pt1 pt2 = Inr s'"
  shows "\<exists>dx dy. s' = displaceLoop s pts dx dy"
proof (cases "length chFixed < 3 \<or> length chDisplace < 3")
  case True
  then have "s' = s"
    using assms by (simp add: displaceFromHulls_def)
  then show ?thesis
    using displaceLoop_zero [of s pts] by metis
next
  case False
  then show ?thesis
    using assms
    by (auto simp: displaceFromHulls_def Let_def split: sum.splits option.splits if_splits)
qed

text \<open>
  Both hulls that \<open>displacePoints\<close> computes are empty, so the guard on their lengths
  always returns.
\<close>

lemma displacePoints_noop: "displacePoints s ptsFixed ptsToDisplace padding pt1 pt2 = Inr s"
  by (simp add: displacePoints_def getConvexHull_empty displaceFromHulls_def)


text \<open>
  A zero separating axis makes the two points of the line coincide; then no vertex is at
  a positive distance, \<open>farthestPoint\<close> is \<open>null\<close> and the body throws before it
  divides by the axis length. So the main body never yields NaN coordinates.
\<close>

lemma lineStep_same: "lineStep s p p acc pt = acc"
  by (simp add: lineStep_def Let_def)

lemma lineLoop_same: "lineLoop s p p ch acc = acc"
  by (induction ch arbitrary: acc) (simp_all add: lineStep_same)

lemma findMostDistantPointFromLine_same: "findMostDistantPointFromLine s p p ch = None"
  by (simp add: findMostDistantPointFromLine_def lineLoop_same)

lemma point_shift_zero: "a = 0 \<Longrightarrow> b = 0 \<Longrightarrow> \<lparr>x = x p + a, y = y p + b\<rparr> = (p::point)"
  by (cases p) simp

lemma displaceFromHulls_no_NaN:
  "displaceFromHulls s chFixed chDisplace pts padding pt1 pt2 \<noteq> Inl NaNResult"
proof -
  have md: "minDistanceVector s ch p \<noteq> Inl NaNResult" for ch p
    by (simp add: minDistanceVector_def Let_def split: option.splits prod.splits)
  have dl: "directionLoop s ch p v es \<noteq> Inl NaNResult" for ch p v es
    by (induction es) (simp_all split: option.splits)
  have mdd: "minDistanceVectorInDirection s ch p v \<noteq> Inl NaNResult" for ch p v
    by (simp add: minDistanceVectorInDirection_def dl)
  have far: "findMostDistantPointFromLine s sp \<lparr>x = x sp + ax, y = y sp + ay\<rparr> ch = Some fp
      \<Longrightarrow> sqrt (ax * ax + ay * ay) \<noteq> 0" for sp ax ay ch fp
  proof
    assume f: "findMostDistantPointFromLine s sp \<lparr>x = x sp + ax, y = y sp + ay\<rparr> ch = Some fp"
      and z: "sqrt (ax * ax + ay * ay) = 0"
    from z have "ax = 0" "ay = 0"
      by (simp_all add: sum_squares_eq_zero_iff)
    then have "\<lparr>x = x sp + ax, y = y sp + ay\<rparr> = sp"
      by (rule point_shift_zero)
    with f show False
      by (simp add: findMostDistantPointFromLine_same)
  qed
  show ?thesis
    using md mdd far
    by (auto simp: displaceFromHulls_def Let_def findMostDistantPointFromLine_same
        split: sum.splits option.splits)
qed

text \<open>
  Claim C6. If either computed hull has fewer than 3 edges, \<open>displacePoints\<close> is a
  no-op: it returns without throwing and leaves every coordinate of every point, in both
  sets, as it was.
\<close>

theorem displacePoints_degenerate_noop:
  assumes "getConvexHull s ptsFixed = Inr chFixed"
    and "getConvexHull s ptsToDisplace = Inr chDisplace"
    and "length chFixed < 3 \<or> length chDisplace < 3"
  shows "displacePoints s ptsFixed ptsToDisplace padding pt1 pt2 = Inr s"
  using assms by (simp add: displacePoints_def displaceFromHulls_def)

theorem displacePoints_degenerate_noop_witness:
  "getConvexHull squares [0, 1, 2, 3] = Inr []
   \<and> getConvexHull squares [4, 5, 6, 7] = Inr []
   \<and> (length ([] :: edge list) < 3 \<or> length ([] :: edge list) < 3)
   \<and> displacePoints squares [0, 1, 2, 3] [4, 5, 6, 7] (Some 1) None None = Inr squares"
proof -
  have a: "getConvexHull squares [0, 1, 2, 3] = Inr []"
    by (rule getConvexHull_empty)
  have b: "getConvexHull squares [4, 5, 6, 7] = Inr []"
    by (rule getConvexHull_empty)
  have c: "length ([] :: edge list) < 3 \<or> length ([] :: edge list) < 3"
    by simp
  show ?thesis
    using a b c displacePoints_degenerate_noop [OF a b c, of "Some 1" None None] by simp
qed

text \<open>
  Claim C4. No call of \<open>displacePoints\<close> modifies a coordinate of a point of
  \<open>ptsFixed\<close>; the only writes are to members of \<open>ptsToDisplace\<close>.

  The first part is about \<open>displacePoints\<close> itself. The second part is about its main
  body for any two hulls: a reference that is not a member of \<open>ptsToDisplace\<close> holds
  the same point afterwards.
\<close>

theorem fixed_set_unchanged:
  "(displacePoints s ptsFixed ptsToDisplace padding pt1 pt2 = Inr s' \<longrightarrow>
      (\<forall>r\<in>set ptsFixed. s' r = s r))
   \<and> (displaceFromHulls s chFixed chDisplace ptsToDisplace padding pt1 pt2 = Inr s'' \<longrightarrow>
        (\<forall>r. r \<notin> set ptsToDisplace \<longrightarrow> s'' r = s r))"
proof (intro conjI impI)
  assume "displacePoints s ptsFixed ptsToDisplace padding pt1 pt2 = Inr s'"
  then have "s' = s"
    by (simp add: displacePoints_noop)
  then show "\<forall>r\<in>set ptsFixed. s' r = s r"
    by simp
next
  assume "displaceFromHulls s chFixed chDisplace ptsToDisplace padding pt1 pt2 = Inr s''"
  then obtain dx dy where "s'' = displaceLoop s ptsToDisplace dx dy"
    using displaceFromHulls_result by blast
  then show "\<forall>r. r \<notin> set ptsToDisplace \<longrightarrow> s'' r = s r"
    by (simp add: displaceLoop_other)
qed

theorem fixed_set_unchanged_witness:
  "displacePoints squares [0, 1, 2, 3] [4, 5, 6, 7] (Some 1) None None = Inr squares
   \<and> displaceFromHulls squares squareHullFixed squareHullDisplace [4, 5, 6, 7] (Some 1) None None
       = Inr (displaceLoop squares [4, 5, 6, 7] (- 3) (- 1))
   \<and> map (displaceLoop squares [4, 5, 6, 7] (- 3) (- 1)) [0, 1, 2, 3] = map squares [0, 1, 2, 3]
   \<and> displaceLoop squares [4, 5, 6, 7] (- 3) (- 1) 7 = \<lparr>x = - 1, y = 1\<rparr>
   \<and> squares 7 = \<lparr>x = 2, y = 2\<rparr>"
proof -
  have a: "displacePoints squares [0, 1, 2, 3] [4, 5, 6, 7] (Some 1) None None = Inr squares"
    by (rule displacePoints_noop)
  note b = squares_displaceFromHulls
  have c: "displaceLoop squares [4, 5, 6, 7] (- 3) (- 1) 7 = \<lparr>x = - 1, y = 1\<rparr>"
    by (simp add: squares_at)
  from fixed_set_unchanged [of squares "[0, 1, 2, 3]" "[4, 5, 6, 7]" "Some 1" None None squares
      squareHullFixed squareHullDisplace "displaceLoop squares [4, 5, 6, 7] (- 3) (- 1)"] a b
  have d: "\<forall>r. r \<notin> set [4, 5, 6, 7]
             \<longrightarrow> displaceLoop squares [4, 5, 6, 7] (- 3) (- 1) r = squares r"
    by blast
  have m: "displaceLoop squares [4, 5, 6, 7] (- 3) (- 1) r = squares r"
    if "r \<in> set [0, 1, 2, 3]" for r
  proof -
    from that have "r \<notin> set [4, 5, 6, 7]" by auto
    with d show ?thesis by blast
  qed
  have e: "map (displaceLoop squares [4, 5, 6, 7] (- 3) (- 1)) [0, 1, 2, 3]
             = map squares [0, 1, 2, 3]"
    by (rule map_cong [OF refl]) (rule m)
  show ?thesis
    by (intro conjI a b c e squares_at)
qed





text \<open>
  Claim C1. After \<open>displacePoints(A, B, padding, pt1, pt2)\<close> on sets whose hulls have
  at least 3 edges, the hull of the translated \<open>B\<close> and the hull of \<open>A\<close> do not
  intersect and are at least \<open>padding\<close> apart.

  On the two triangles, with padding 1: the call returns with the store as it was; the
  edge lists that the two hull constructions build have three edges each; and afterwards
  the vertex \<open>(2,2)\<close> of the triangle that was to be displaced is still a convex
  combination, with positive weights, of the vertices of the fixed triangle.
\<close>

theorem displacePoints_triangles_overlap:
  "displacePoints triangles [0, 1, 2] [3, 4, 5] (Some 1) None None = Inr triangles
   \<and> length (buildConvexHull triangles (0, 1) [0, 1, 2]
              @ buildConvexHull triangles (1, 0) [0, 1, 2]) = 3
   \<and> length (buildConvexHull triangles (3, 4) [3, 4, 5]
              @ buildConvexHull triangles (4, 3) [3, 4, 5]) = 3
   \<and> x (triangles 3) = 1 / 2 * x (triangles 0) + 1 / 4 * x (triangles 1) + 1 / 4 * x (triangles 2)
   \<and> y (triangles 3) = 1 / 2 * y (triangles 0) + 1 / 4 * y (triangles 1) + 1 / 4 * y (triangles 2)"
proof -
  have a: "displacePoints triangles [0, 1, 2] [3, 4, 5] (Some 1) None None = Inr triangles"
    by (rule displacePoints_noop)
  have "length (buildConvexHull triangles (0, 1) [0, 1, 2]
                @ buildConvexHull triangles (1, 0) [0, 1, 2])
          = length ([(0, 2), (2, 1), (1, 0)] :: edge list)"
    by (simp only: triangles_fixed_edges)
  then have b: "length (buildConvexHull triangles (0, 1) [0, 1, 2]
                @ buildConvexHull triangles (1, 0) [0, 1, 2]) = 3"
    by simp
  have "length (buildConvexHull triangles (3, 4) [3, 4, 5]
                @ buildConvexHull triangles (4, 3) [3, 4, 5])
          = length ([(3, 5), (5, 4), (4, 3)] :: edge list)"
    by (simp only: triangles_displace_edges)
  then have c: "length (buildConvexHull triangles (3, 4) [3, 4, 5]
                @ buildConvexHull triangles (4, 3) [3, 4, 5]) = 3"
    by simp
  have d: "x (triangles 3)
      = 1 / 2 * x (triangles 0) + 1 / 4 * x (triangles 1) + 1 / 4 * x (triangles 2)"
    "y (triangles 3)
      = 1 / 2 * y (triangles 0) + 1 / 4 * y (triangles 1) + 1 / 4 * y (triangles 2)"
    by (simp_all add: triangles_at)
  show ?thesis
    by (intro conjI a b c d)
qed

text \<open>
  Claim C10. For \<open>ptsFixed\<close> the square \<open>(0,0)\<close>, \<open>(0,2)\<close>, \<open>(2,2)\<close>, \<open>(2,0)\<close>,
  \<open>ptsToDisplace\<close> the square \<open>(1,1)\<close>, \<open>(1,2)\<close>, \<open>(2,1)\<close>, \<open>(2,2)\<close> and padding 0, the
  two hulls share no interior area after \<open>displacePoints\<close>, for example the minimum
  \<open>x\<close> of the displaced points is at least 2.

  The call returns with the store as it was: the point \<open>(1,1)\<close> of the set to displace
  keeps \<open>x = 1\<close> and is the centre of the fixed square.
\<close>

theorem displacePoints_squares_overlap:
  "displacePoints squares [0, 1, 2, 3] [4, 5, 6, 7] None None None = Inr squares
   \<and> x (squares 4) = 1 \<and> x (squares 4) < 2
   \<and> x (squares 4) = (x (squares 0) + x (squares 1) + x (squares 2) + x (squares 3)) / 4
   \<and> y (squares 4) = (y (squares 0) + y (squares 1) + y (squares 2) + y (squares 3)) / 4"
  by (simp add: displacePoints_noop squares_at)

end
